theory Spec2Isabelle
  imports Main "HOL-Library.Sublist"
begin

section \<open>JavaScript strings\<close>

text \<open>
  A JavaScript string is modelled as a \<^typ>\<open>string\<close> holding its UTF-8 bytes. Every
  needle, literal and character class that the program searches for is ASCII, except the
  Unicode white space of \<open>\s\<close> and \<open>trim\<close> and the two Unicode line separators, whose
  UTF-8 encodings are written out below. The pictographs of the program's own messages
  are the byte sequences of their UTF-8 encoding.
\<close>

definition is_digit_char :: "char \<Rightarrow> bool" where
  "is_digit_char c = (let n = (of_char c :: nat) in 48 \<le> n \<and> n \<le> 57)"

definition is_alnum_char :: "char \<Rightarrow> bool" where
  "is_alnum_char c =
     (let n = (of_char c :: nat)
      in (48 \<le> n \<and> n \<le> 57) \<or> (65 \<le> n \<and> n \<le> 90) \<or> (97 \<le> n \<and> n \<le> 122))"

text \<open>The class \<open>\w\<close> of a regular expression without the \<open>u\<close> flag: \<open>[A-Za-z0-9_]\<close>.\<close>

definition is_word_char :: "char \<Rightarrow> bool" where
  "is_word_char c = (is_alnum_char c \<or> c = CHR ''_'')"

text \<open>
  \<open>ws_len s\<close> is the number of bytes of the white-space character (\<open>\s\<close>, which includes
  the line terminators) at the head of \<open>s\<close>, and \<open>0\<close> when \<open>s\<close> does not start with one.
\<close>

definition ws_len :: "string \<Rightarrow> nat" where
  "ws_len s =
    (case s of
       [] \<Rightarrow> 0
     | c # _ \<Rightarrow>
        (let n = (of_char c :: nat)
         in if (9 \<le> n \<and> n \<le> 13) \<or> n = 32 then 1
            else if prefix [CHR 0xC2, CHR 0xA0] s then 2
            else if prefix [CHR 0xE1, CHR 0x9A, CHR 0x80] s then 3
            else if prefix [CHR 0xE2, CHR 0x80] s \<and>
                    (case drop 2 s of
                       [] \<Rightarrow> False
                     | d # _ \<Rightarrow> (let m = (of_char d :: nat)
                                in (128 \<le> m \<and> m \<le> 138) \<or> m = 168 \<or> m = 169 \<or> m = 175))
                 then 3
            else if prefix [CHR 0xE2, CHR 0x81, CHR 0x9F] s then 3
            else if prefix [CHR 0xE3, CHR 0x80, CHR 0x80] s then 3
            else if prefix [CHR 0xEF, CHR 0xBB, CHR 0xBF] s then 3
            else 0))"

text \<open>\<open>.\<close> matches anything but a line terminator: \<open>\n\<close>, \<open>\r\<close>, U+2028 and U+2029.\<close>

definition dot_len :: "string \<Rightarrow> nat" where
  "dot_len s =
    (case s of
       [] \<Rightarrow> 0
     | c # _ \<Rightarrow>
        (if c = CHR 0x0A \<or> c = CHR 0x0D
            \<or> prefix [CHR 0xE2, CHR 0x80, CHR 0xA8] s
            \<or> prefix [CHR 0xE2, CHR 0x80, CHR 0xA9] s
         then 0 else 1))"

text \<open>\<open>String.prototype.includes\<close> with an ASCII needle.\<close>

fun str_includes :: "string \<Rightarrow> string \<Rightarrow> bool" where
  "str_includes [] needle = (needle = [])"
| "str_includes (c # s) needle = (prefix needle (c # s) \<or> str_includes s needle)"

text \<open>\<open>String.prototype.trim\<close>: white space is removed from both ends.\<close>

function trimStart :: "string \<Rightarrow> string" where
  "trimStart s = (if ws_len s = 0 \<or> s = [] then s else trimStart (drop (ws_len s) s))"
  by pat_completeness auto
termination
  by (relation "measure length") auto

declare trimStart.simps [simp del]

fun trimEnd :: "string \<Rightarrow> string" where
  "trimEnd [] = []"
| "trimEnd (c # s) = (if trimStart (c # s) = [] then [] else c # trimEnd s)"

definition trim :: "string \<Rightarrow> string" where
  "trim s = trimEnd (trimStart s)"

text \<open>A template literal renders \<open>undefined\<close> as the text \<open>undefined\<close>.\<close>

fun tmpl :: "string option \<Rightarrow> string" where
  "tmpl None = ''undefined''"
| "tmpl (Some s) = s"

section \<open>Regular expressions\<close>

text \<open>
  The program's regular expressions use literals, the classes \<open>.\<close>, \<open>\w\<close>, \<open>\s\<close>, \<open>\d\<close>
  and \<open>[a-zA-Z0-9]\<close> under a greedy \<open>+\<close> or a lazy \<open>+?\<close>, capture groups and
  concatenation. The matcher is the backtracking one of the language: a greedy \<open>+\<close> tries
  the longest repetition first, a lazy one the shortest, and the first complete match wins.
\<close>

datatype cls = AnyC | WordC | SpaceC | DigitC | AlnumC

datatype rx = Chars string | PlusG cls | PlusL cls | Grp rx | Cat rx rx

definition cls_len :: "cls \<Rightarrow> string \<Rightarrow> nat" where
  "cls_len c s =
    (case c of
       AnyC \<Rightarrow> dot_len s
     | SpaceC \<Rightarrow> ws_len s
     | WordC \<Rightarrow> (case s of [] \<Rightarrow> 0 | x # _ \<Rightarrow> if is_word_char x then 1 else 0)
     | DigitC \<Rightarrow> (case s of [] \<Rightarrow> 0 | x # _ \<Rightarrow> if is_digit_char x then 1 else 0)
     | AlnumC \<Rightarrow> (case s of [] \<Rightarrow> 0 | x # _ \<Rightarrow> if is_alnum_char x then 1 else 0))"

text \<open>The offsets at which one, two, ... repetitions of a class end, in increasing order.\<close>

function run_ends :: "cls \<Rightarrow> string \<Rightarrow> nat list" where
  "run_ends c s =
     (if cls_len c s = 0 \<or> s = [] then []
      else cls_len c s # map (\<lambda>n. cls_len c s + n) (run_ends c (drop (cls_len c s) s)))"
  by pat_completeness auto
termination
  by (relation "measure (\<lambda>(c, s). length s)") auto

declare run_ends.simps [simp del]

fun first_some :: "'a option list \<Rightarrow> 'a option" where
  "first_some [] = None"
| "first_some (None # xs) = first_some xs"
| "first_some (Some v # xs) = Some v"

text \<open>
  \<open>rmatch r s caps k\<close> matches \<open>r\<close> at the head of \<open>s\<close> and hands the rest of the input and
  the captures to the continuation \<open>k\<close>; \<open>None\<close> from the continuation makes it backtrack.
\<close>

fun rmatch :: "rx \<Rightarrow> string \<Rightarrow> string list \<Rightarrow> (string \<Rightarrow> string list \<Rightarrow> 'a option) \<Rightarrow> 'a option" where
  "rmatch (Chars l) s caps k = (if prefix l s then k (drop (length l) s) caps else None)"
| "rmatch (PlusG c) s caps k = first_some (map (\<lambda>n. k (drop n s) caps) (rev (run_ends c s)))"
| "rmatch (PlusL c) s caps k = first_some (map (\<lambda>n. k (drop n s) caps) (run_ends c s))"
| "rmatch (Grp r) s caps k =
     rmatch r s caps (\<lambda>s' caps'. k s' (caps' @ [take (length s - length s') s]))"
| "rmatch (Cat r1 r2) s caps k = rmatch r1 s caps (\<lambda>s' caps'. rmatch r2 s' caps' k)"

text \<open>A match anchored at the start of the input (\<open>^\<close> without the \<open>m\<close> flag): the captures.\<close>

definition match_here :: "rx \<Rightarrow> string \<Rightarrow> string list option" where
  "match_here r s = rmatch r s [] (\<lambda>_ caps. Some caps)"

text \<open>\<open>String.prototype.match\<close> of an unanchored expression: the leftmost start offset wins.\<close>

fun js_match :: "rx \<Rightarrow> string \<Rightarrow> string list option" where
  "js_match r [] = match_here r []"
| "js_match r (c # s) =
     (case match_here r (c # s) of Some caps \<Rightarrow> Some caps | None \<Rightarrow> js_match r s)"

text \<open>\<open>m?.[1]\<close>: the first capture of a match, \<open>undefined\<close> when there is no match.\<close>

definition group1 :: "string list option \<Rightarrow> string option" where
  "group1 m = (case m of None \<Rightarrow> None | Some caps \<Rightarrow> (case caps of [] \<Rightarrow> None | g # _ \<Rightarrow> Some g))"

section \<open>The log classifier\<close>

datatype log_type = Info | Warn | Error | Success | Player | World

text \<open>The pictographs that decorate the messages, as UTF-8.\<close>

abbreviation green_circle :: string where
  "green_circle \<equiv> [CHR 0xF0, CHR 0x9F, CHR 0x9F, CHR 0xA2]"
abbreviation red_circle :: string where
  "red_circle \<equiv> [CHR 0xF0, CHR 0x9F, CHR 0x94, CHR 0xB4]"
abbreviation speech_balloon :: string where
  "speech_balloon \<equiv> [CHR 0xF0, CHR 0x9F, CHR 0x92, CHR 0xAC]"
abbreviation rocket :: string where
  "rocket \<equiv> [CHR 0xF0, CHR 0x9F, CHR 0x9A, CHR 0x80]"
abbreviation check_mark :: string where
  "check_mark \<equiv> [CHR 0xE2, CHR 0x9C, CHR 0x85]"
abbreviation globe :: string where
  "globe \<equiv> [CHR 0xF0, CHR 0x9F, CHR 0x8C, CHR 0x8D]"
abbreviation stopwatch :: string where
  "stopwatch \<equiv> [CHR 0xE2, CHR 0x8F, CHR 0xB1, CHR 0xEF, CHR 0xB8, CHR 0x8F]"
abbreviation electric_plug :: string where
  "electric_plug \<equiv> [CHR 0xF0, CHR 0x9F, CHR 0x94, CHR 0x8C]"
abbreviation link_symbol :: string where
  "link_symbol \<equiv> [CHR 0xF0, CHR 0x9F, CHR 0x94, CHR 0x97]"
abbreviation arrows_circle :: string where
  "arrows_circle \<equiv> [CHR 0xF0, CHR 0x9F, CHR 0x94, CHR 0x84]"
abbreviation cross_mark :: string where
  "cross_mark \<equiv> [CHR 0xE2, CHR 0x9D, CHR 0x8C]"
abbreviation warning_sign :: string where
  "warning_sign \<equiv> [CHR 0xE2, CHR 0x9A, CHR 0xA0, CHR 0xEF, CHR 0xB8, CHR 0x8F]"

text \<open>What \<open>parseMinecraftLog\<close> returns: \<open>{ type, message, original }\<close>.\<close>

record parsed =
  ptype :: log_type
  pmessage :: string
  original :: string

text \<open>\<open>/(\w+) joined the game/\<close> and \<open>/(\w+) left the game/\<close>.\<close>

definition joined_rx :: rx where
  "joined_rx = Cat (Grp (PlusG WordC)) (Chars '' joined the game'')"

definition left_rx :: rx where
  "left_rx = Cat (Grp (PlusG WordC)) (Chars '' left the game'')"

definition parseMinecraftLog :: "string \<Rightarrow> parsed" where
  "parseMinecraftLog message =
    (if str_includes message ''joined the game'' then
       (let playerName = group1 (js_match joined_rx message)
        in \<lparr>ptype = Player,
            pmessage = green_circle @ '' '' @ tmpl playerName @ '' joined the game'',
            original = message\<rparr>)
     else if str_includes message ''left the game'' then
       (let playerName = group1 (js_match left_rx message)
        in \<lparr>ptype = Player,
            pmessage = red_circle @ '' '' @ tmpl playerName @ '' left the game'',
            original = message\<rparr>)
     else if str_includes message ''<'' \<and> str_includes message ''>'' then
       \<lparr>ptype = Player, pmessage = speech_balloon @ '' '' @ message, original = message\<rparr>
     else if str_includes message ''Starting minecraft server version'' then
       \<lparr>ptype = Success, pmessage = rocket @ '' '' @ message, original = message\<rparr>
     else if str_includes message ''Done ('' \<and>
             str_includes message (''For help, type '' @ [CHR 0x22] @ ''help'' @ [CHR 0x22]) then
       \<lparr>ptype = Success,
        pmessage = check_mark @ '' Server startup complete! '' @ message,
        original = message\<rparr>
     else if str_includes message ''Preparing spawn area'' \<or>
             str_includes message ''Preparing level'' then
       \<lparr>ptype = World, pmessage = globe @ '' '' @ message, original = message\<rparr>
     else if str_includes message ''Time elapsed:'' then
       \<lparr>ptype = World, pmessage = stopwatch @ '' '' @ message, original = message\<rparr>
     else if str_includes message ''Loading'' \<and> str_includes message ''plugin'' then
       \<lparr>ptype = Info, pmessage = electric_plug @ '' '' @ message, original = message\<rparr>
     else if str_includes message ''Enabling'' \<and> str_includes message ''plugin'' then
       \<lparr>ptype = Success, pmessage = check_mark @ '' '' @ message, original = message\<rparr>
     else if str_includes message ''Geyser'' \<and> str_includes message ''Started Geyser'' then
       \<lparr>ptype = Success,
        pmessage = link_symbol @ '' Crossplay bridge (Geyser) is ONLINE!'',
        original = message\<rparr>
     else if str_includes message ''ViaVersion'' \<and> str_includes message ''enabled'' then
       \<lparr>ptype = Success,
        pmessage = arrows_circle @ '' Multi-version support (ViaVersion) is ONLINE!'',
        original = message\<rparr>
     else if str_includes message ''ERROR'' \<or> str_includes message ''SEVERE'' then
       \<lparr>ptype = Error, pmessage = cross_mark @ '' '' @ message, original = message\<rparr>
     else if str_includes message ''WARN'' then
       \<lparr>ptype = Warn, pmessage = warning_sign @ '' '' @ message, original = message\<rparr>
     else \<lparr>ptype = Info, pmessage = message, original = message\<rparr>)"

section \<open>Rendering values in template literals\<close>

function show_nat :: "nat \<Rightarrow> string" where
  "show_nat n =
     (if n < 10 then [char_of (48 + n)] else show_nat (n div 10) @ [char_of (48 + n mod 10)])"
  by pat_completeness auto
termination
  by (relation "measure id") auto

declare show_nat.simps [simp del]

definition show_int :: "int \<Rightarrow> string" where
  "show_int i = (if i < 0 then CHR ''-'' # show_nat (nat (- i)) else show_nat (nat i))"

text \<open>An exit code is a number, or \<open>null\<close> when a signal ended the process.\<close>

fun tmpl_code :: "int option \<Rightarrow> string" where
  "tmpl_code None = ''null''"
| "tmpl_code (Some i) = show_int i"

fun tmpl_int :: "int option \<Rightarrow> string" where
  "tmpl_int None = ''undefined''"
| "tmpl_int (Some i) = show_int i"

text \<open>\<open>x || d\<close> on a string that may be missing: the empty string is falsy too.\<close>

fun js_or :: "string option \<Rightarrow> string \<Rightarrow> string" where
  "js_or None d = d"
| "js_or (Some s) d = (if s = [] then d else s)"

section \<open>The configuration document\<close>

text \<open>
  The blocks \<open>server\<close>, \<open>performance\<close> and \<open>playit\<close> are present, as \<open>createDefaultConfig\<close>
  writes them; the block \<open>world\<close> may be missing, which the program checks for. The
  settings that the operations below never read are carried in \<open>otherSettings\<close>.
\<close>

record server_cfg =
  seed :: "string option"
  levelName :: "string option"
  gamemode :: "string option"
  difficulty :: "string option"
  maxPlayers :: "int option"
  otherSettings :: "(string \<times> string) list"

record performance_cfg =
  maxMemory :: "string option"
  minMemory :: "string option"

record playit_cfg =
  autoStart :: bool

record world_cfg =
  currentSeed :: "string option"
  lastUsedSeed :: "string option"
  worldGenerated :: "bool option"

record config =
  server :: server_cfg
  performance :: performance_cfg
  playit :: playit_cfg
  world :: "world_cfg option"

section \<open>The filesystem\<close>

text \<open>
  A path is the list of its components below the working directory, and a name joined to
  a path (a level name, a directory entry) is one component. A file holds raw text or the
  JSON text of a configuration, which \<open>JSON.stringify\<close> determines.
\<close>

type_synonym path = "string list"

definition path_join :: "path \<Rightarrow> string \<Rightarrow> path" where
  "path_join p name = p @ [name]"

fun path_str :: "path \<Rightarrow> string" where
  "path_str [] = ''.''"
| "path_str [c] = c"
| "path_str (c # p) = c @ ''/'' @ path_str p"

datatype content = Raw string | ConfigJson config

datatype node = File content | Dir "(string \<times> node) list"

datatype error =
  ENOENT path | EEXIST path | ENOTDIR path | EISDIR path | EACCES path | EINVAL path
  | RangeError

fun error_message :: "error \<Rightarrow> string" where
  "error_message (ENOENT p) = ''ENOENT: no such file or directory, '' @ path_str p"
| "error_message (EEXIST p) = ''EEXIST: file already exists, '' @ path_str p"
| "error_message (ENOTDIR p) = ''ENOTDIR: not a directory, '' @ path_str p"
| "error_message (EISDIR p) = ''EISDIR: illegal operation on a directory, '' @ path_str p"
| "error_message (EACCES p) = ''EACCES: permission denied, '' @ path_str p"
| "error_message (EINVAL p) = ''EINVAL: invalid argument, '' @ path_str p"
| "error_message RangeError = ''Maximum call stack size exceeded''"

fun lookup :: "node \<Rightarrow> path \<Rightarrow> node option" where
  "lookup t [] = Some t"
| "lookup (File d) (c # p) = None"
| "lookup (Dir ks) (c # p) = (case map_of ks c of None \<Rightarrow> None | Some k \<Rightarrow> lookup k p)"

fun set_kid :: "string \<Rightarrow> node \<Rightarrow> (string \<times> node) list \<Rightarrow> (string \<times> node) list" where
  "set_kid c new [] = [(c, new)]"
| "set_kid c new ((n, k) # ks) = (if n = c then (n, new) # ks else (n, k) # set_kid c new ks)"

text \<open>\<open>put t p new\<close> stores \<open>new\<close> at \<open>p\<close>, whose parent directory exists.\<close>

fun put :: "node \<Rightarrow> path \<Rightarrow> node \<Rightarrow> node" where
  "put t [] new = new"
| "put (File d) (c # p) new = File d"
| "put (Dir ks) (c # p) new =
     (case map_of ks c of
        None \<Rightarrow> (if p = [] then Dir (set_kid c new ks) else Dir ks)
      | Some k \<Rightarrow> Dir (set_kid c (put k p new) ks))"

fun del :: "node \<Rightarrow> path \<Rightarrow> node" where
  "del t [] = t"
| "del (File d) (c # p) = File d"
| "del (Dir ks) (c # p) =
     (if p = [] then Dir (filter (\<lambda>e. fst e \<noteq> c) ks)
      else (case map_of ks c of None \<Rightarrow> Dir ks | Some k \<Rightarrow> Dir (set_kid c (del k p) ks)))"

text \<open>
  Faults: \<open>ro\<close> lists the write-protected paths. No entry is created in or removed from
  a protected directory, and a protected file is not overwritten. Reading never fails on
  an entry that exists.
\<close>

fun fs_stat :: "node \<Rightarrow> path \<Rightarrow> error + bool" where
  "fs_stat t p =
     (case lookup t p of
        None \<Rightarrow> Inl (ENOENT p)
      | Some (File _) \<Rightarrow> Inr False
      | Some (Dir _) \<Rightarrow> Inr True)"

fun fs_readdir :: "node \<Rightarrow> path \<Rightarrow> error + string list" where
  "fs_readdir t p =
     (case lookup t p of
        None \<Rightarrow> Inl (ENOENT p)
      | Some (File _) \<Rightarrow> Inl (ENOTDIR p)
      | Some (Dir ks) \<Rightarrow> Inr (map fst ks))"

text \<open>
  \<open>mkdirSync(p, { recursive: true })\<close> creates the missing directories of \<open>p\<close> from the
  top; the ones made before a failure stay.
\<close>

fun fs_mkdir :: "path list \<Rightarrow> path \<Rightarrow> path \<Rightarrow> node \<Rightarrow> error option \<times> node" where
  "fs_mkdir ro seen [] t = (None, t)"
| "fs_mkdir ro seen (c # rest) t =
     (case lookup t (seen @ [c]) of
        Some (Dir _) \<Rightarrow> fs_mkdir ro (seen @ [c]) rest t
      | Some (File _) \<Rightarrow>
          (Some (if rest = [] then EEXIST (seen @ [c]) else ENOTDIR (seen @ [c])), t)
      | None \<Rightarrow>
          (if seen \<in> set ro then (Some (EACCES (seen @ [c])), t)
           else fs_mkdir ro (seen @ [c]) rest (put t (seen @ [c]) (Dir []))))"

fun fs_write :: "path list \<Rightarrow> node \<Rightarrow> path \<Rightarrow> content \<Rightarrow> error + node" where
  "fs_write ro t p d =
     (if p = [] then Inl (EISDIR p)
      else (case lookup t p of
              Some (Dir _) \<Rightarrow> Inl (EISDIR p)
            | Some (File _) \<Rightarrow> if p \<in> set ro then Inl (EACCES p) else Inr (put t p (File d))
            | None \<Rightarrow>
               (case lookup t (butlast p) of
                  None \<Rightarrow> Inl (ENOENT p)
                | Some (File _) \<Rightarrow> Inl (ENOTDIR p)
                | Some (Dir _) \<Rightarrow>
                    if butlast p \<in> set ro then Inl (EACCES p) else Inr (put t p (File d)))))"

fun fs_copy_file :: "path list \<Rightarrow> node \<Rightarrow> path \<Rightarrow> path \<Rightarrow> error + node" where
  "fs_copy_file ro t src dest =
     (case lookup t src of
        None \<Rightarrow> Inl (ENOENT src)
      | Some (Dir _) \<Rightarrow> Inl (EISDIR src)
      | Some (File d) \<Rightarrow> fs_write ro t dest d)"

text \<open>
  \<open>rmSync(p, { recursive: true, force: true })\<close> empties a directory entry by entry, in
  order, and stops at the first entry that it may not remove: what was removed before
  stays removed. \<open>rm_node\<close> returns what is left of a node and the entry that stopped it.
\<close>

function rm_node :: "path list \<Rightarrow> path \<Rightarrow> node \<Rightarrow> node \<times> path option"
  and rm_kids :: "path list \<Rightarrow> path \<Rightarrow> (string \<times> node) list \<Rightarrow> (string \<times> node) list \<times> path option"
where
  "rm_node ro p (File d) = (File d, None)"
| "rm_node ro p (Dir ks) = (case rm_kids ro p ks of (ks', bad) \<Rightarrow> (Dir ks', bad))"
| "rm_kids ro p [] = ([], None)"
| "rm_kids ro p ((n, c) # rest) =
     (case rm_node ro (p @ [n]) c of
        (c', Some bad) \<Rightarrow> ((n, c') # rest, Some bad)
      | (c', None) \<Rightarrow>
          if p \<in> set ro then ((n, c') # rest, Some (p @ [n])) else rm_kids ro p rest)"
  by pat_completeness auto
termination
  by (relation "measure (\<lambda>x. case x of
          Inl (ro, p, t) \<Rightarrow> size t
        | Inr (ro, p, ks) \<Rightarrow> size_list (size_prod (\<lambda>_. 0) size) ks)") auto

fun fs_rm :: "path list \<Rightarrow> node \<Rightarrow> path \<Rightarrow> error option \<times> node" where
  "fs_rm ro t p =
     (if p = [] then (Some (EINVAL p), t)
      else (case lookup t p of
              None \<Rightarrow> (None, t)
            | Some n \<Rightarrow>
               (case rm_node ro p n of
                  (n', Some bad) \<Rightarrow> (Some (EACCES bad), put t p n')
                | (n', None) \<Rightarrow>
                    if butlast p \<in> set ro then (Some (EACCES p), put t p n')
                    else (None, del t p))))"

section \<open>The manager and its environment\<close>

datatype status = Offline | Starting | Online | Stopping

record log_entry =
  timestamp :: string
  message :: string
  type :: log_type
  time :: string

text \<open>A reading of the clock, as the three renderings of it that the program uses.\<close>

record date =
  iso :: string
  localeTime :: string
  epochMs :: nat

datatype fs_op =
  OpExists path | OpStat path | OpMkdir path | OpReaddir path | OpCopyFile path path
  | OpWriteFile path content | OpRm path

text \<open>
  One record holds the fields of the \<open>MinecraftCrossplayServer\<close> object and, after them,
  the environment it acts on: the directory tree with its write-protected paths and the
  trace of the filesystem calls (each with whether it completed without error), the clock
  as the sequence of its readings, the room left on the call stack, the processes
  spawned, the signals and the input sent to them, the entries emitted to the
  subscribers and the console.
\<close>

record state =
  minecraftProcess :: "nat option"
  playitProcess :: "nat option"
  serverPath :: path
  jarFile :: string
  localIP :: string
  publicIP :: "string option"
  serverStatus :: status
  startTime :: "nat option"
  serverReady :: bool
  logs :: "log_entry list"
  maxLogs :: nat
  config :: config
  playitInstalled :: bool
  playitPath :: string
  playitJava :: "string option"
  playitBedrock :: "string option"
  lastPlayitOutput :: string
  playitTunnelsDetected :: bool
  playitSetupUrl :: "string option"
  root :: node
  readonly :: "path list"
  fsTrace :: "(fs_op \<times> bool) list"
  clock :: "nat \<Rightarrow> date"
  ticks :: nat
  stackDepth :: nat
  spawned :: "(nat \<times> string \<times> string list \<times> path option) list"
  signals :: "(nat \<times> string) list"
  stdinWrites :: "(nat \<times> string) list"
  emitted :: "log_entry list"
  console :: "string list"

abbreviation floppy_disk :: string where
  "floppy_disk \<equiv> [CHR 0xF0, CHR 0x9F, CHR 0x92, CHR 0xBE]"
abbreviation seedling :: string where
  "seedling \<equiv> [CHR 0xF0, CHR 0x9F, CHR 0x8C, CHR 0xB1]"
abbreviation new_button :: string where
  "new_button \<equiv> [CHR 0xF0, CHR 0x9F, CHR 0x86, CHR 0x95]"
abbreviation game_die :: string where
  "game_die \<equiv> [CHR 0xF0, CHR 0x9F, CHR 0x8E, CHR 0xB2]"
abbreviation bar_chart :: string where
  "bar_chart \<equiv> [CHR 0xF0, CHR 0x9F, CHR 0x93, CHR 0x8A]"
abbreviation package_box :: string where
  "package_box \<equiv> [CHR 0xF0, CHR 0x9F, CHR 0x93, CHR 0xA6]"
abbreviation file_folder :: string where
  "file_folder \<equiv> [CHR 0xF0, CHR 0x9F, CHR 0x93, CHR 0x81]"
abbreviation wastebasket :: string where
  "wastebasket \<equiv> [CHR 0xF0, CHR 0x9F, CHR 0x97, CHR 0x91, CHR 0xEF, CHR 0xB8, CHR 0x8F]"
abbreviation meridians :: string where
  "meridians \<equiv> [CHR 0xF0, CHR 0x9F, CHR 0x8C, CHR 0x90]"
abbreviation video_game :: string where
  "video_game \<equiv> [CHR 0xF0, CHR 0x9F, CHR 0x8E, CHR 0xAE]"
abbreviation mobile_phone :: string where
  "mobile_phone \<equiv> [CHR 0xF0, CHR 0x9F, CHR 0x93, CHR 0xB1]"
abbreviation party_popper :: string where
  "party_popper \<equiv> [CHR 0xF0, CHR 0x9F, CHR 0x8E, CHR 0x89]"
abbreviation house :: string where
  "house \<equiv> [CHR 0xF0, CHR 0x9F, CHR 0x8F, CHR 0xA0]"
abbreviation people :: string where
  "people \<equiv> [CHR 0xF0, CHR 0x9F, CHR 0x91, CHR 0xA5]"
abbreviation hourglass :: string where
  "hourglass \<equiv> [CHR 0xE2, CHR 0x8F, CHR 0xB3]"
abbreviation collision :: string where
  "collision \<equiv> [CHR 0xF0, CHR 0x9F, CHR 0x92, CHR 0xA5]"
abbreviation stop_button :: string where
  "stop_button \<equiv> [CHR 0xE2, CHR 0x8F, CHR 0xB9, CHR 0xEF, CHR 0xB8, CHR 0x8F]"
abbreviation dquote :: string where
  "dquote \<equiv> [CHR 0x22]"

subsection \<open>The clock and the log buffer\<close>

definition new_Date :: "state \<Rightarrow> date \<times> state" where
  "new_Date st = (clock st (ticks st), st\<lparr>ticks := Suc (ticks st)\<rparr>)"

text \<open>\<open>xs.slice(-n)\<close>: the last \<open>n\<close> elements, and all of them for \<open>-0\<close>.\<close>

definition slice_last :: "nat \<Rightarrow> 'a list \<Rightarrow> 'a list" where
  "slice_last n xs = (if n = 0 then xs else drop (length xs - n) xs)"

definition broadcastLog :: "string \<Rightarrow> log_type \<Rightarrow> state \<Rightarrow> state" where
  "broadcastLog msg ty st =
    (case new_Date st of (d1, st1) \<Rightarrow>
     case new_Date st1 of (d2, st2) \<Rightarrow>
      (let logEntry = \<lparr>timestamp = iso d1, message = msg, type = ty, time = localeTime d2\<rparr>;
           pushed = logs st2 @ [logEntry];
           kept = (if length pushed > maxLogs st2 then slice_last (maxLogs st2) pushed
                   else pushed)
       in st2\<lparr>logs := kept,
              emitted := emitted st2 @ [logEntry],
              console := console st2 @ [''['' @ time logEntry @ ''] '' @ msg]\<rparr>))"

subsection \<open>Filesystem calls\<close>

definition record_fs :: "fs_op \<Rightarrow> bool \<Rightarrow> state \<Rightarrow> state" where
  "record_fs op ok st = st\<lparr>fsTrace := fsTrace st @ [(op, ok)]\<rparr>"

definition existsSync :: "path \<Rightarrow> state \<Rightarrow> bool \<times> state" where
  "existsSync p st = (lookup (root st) p \<noteq> None, record_fs (OpExists p) True st)"

definition statSync :: "path \<Rightarrow> state \<Rightarrow> (error + bool) \<times> state" where
  "statSync p st =
     (case fs_stat (root st) p of
        Inl e \<Rightarrow> (Inl e, record_fs (OpStat p) False st)
      | Inr isDirectory \<Rightarrow> (Inr isDirectory, record_fs (OpStat p) True st))"

definition readdirSync :: "path \<Rightarrow> state \<Rightarrow> (error + string list) \<times> state" where
  "readdirSync p st =
     (case fs_readdir (root st) p of
        Inl e \<Rightarrow> (Inl e, record_fs (OpReaddir p) False st)
      | Inr files \<Rightarrow> (Inr files, record_fs (OpReaddir p) True st))"

definition mkdirSync :: "path \<Rightarrow> state \<Rightarrow> (error + unit) \<times> state" where
  "mkdirSync p st =
     (case fs_mkdir (readonly st) [] p (root st) of
        (Some e, t) \<Rightarrow> (Inl e, record_fs (OpMkdir p) False (st\<lparr>root := t\<rparr>))
      | (None, t) \<Rightarrow> (Inr (), record_fs (OpMkdir p) True (st\<lparr>root := t\<rparr>)))"

definition copyFileSync :: "path \<Rightarrow> path \<Rightarrow> state \<Rightarrow> (error + unit) \<times> state" where
  "copyFileSync src dest st =
     (case fs_copy_file (readonly st) (root st) src dest of
        Inl e \<Rightarrow> (Inl e, record_fs (OpCopyFile src dest) False st)
      | Inr t \<Rightarrow> (Inr (), record_fs (OpCopyFile src dest) True (st\<lparr>root := t\<rparr>)))"

definition writeFileSync :: "path \<Rightarrow> content \<Rightarrow> state \<Rightarrow> (error + unit) \<times> state" where
  "writeFileSync p d st =
     (case fs_write (readonly st) (root st) p d of
        Inl e \<Rightarrow> (Inl e, record_fs (OpWriteFile p d) False st)
      | Inr t \<Rightarrow> (Inr (), record_fs (OpWriteFile p d) True (st\<lparr>root := t\<rparr>)))"

definition rmSync :: "path \<Rightarrow> state \<Rightarrow> (error + unit) \<times> state" where
  "rmSync p st =
     (case fs_rm (readonly st) (root st) p of
        (Some e, t) \<Rightarrow> (Inl e, record_fs (OpRm p) False (st\<lparr>root := t\<rparr>))
      | (None, t) \<Rightarrow> (Inr (), record_fs (OpRm p) True (st\<lparr>root := t\<rparr>)))"

subsection \<open>Processes\<close>

definition spawn :: "string \<Rightarrow> string list \<Rightarrow> path option \<Rightarrow> state \<Rightarrow> nat \<times> state" where
  "spawn command args cwd st =
     (length (spawned st),
      st\<lparr>spawned := spawned st @ [(length (spawned st), command, args, cwd)]\<rparr>)"

definition kill :: "nat \<Rightarrow> string \<Rightarrow> state \<Rightarrow> state" where
  "kill pid signal st = st\<lparr>signals := signals st @ [(pid, signal)]\<rparr>"

definition stdin_write :: "nat \<Rightarrow> string \<Rightarrow> state \<Rightarrow> state" where
  "stdin_write pid text st = st\<lparr>stdinWrites := stdinWrites st @ [(pid, text)]\<rparr>"

section \<open>Seed change and world backup\<close>

definition saveConfig :: "state \<Rightarrow> bool \<times> state" where
  "saveConfig st =
     (case writeFileSync [''config.json''] (ConfigJson (config st)) st of
        (Inr _, st1) \<Rightarrow>
          (True, broadcastLog (floppy_disk @ '' Configuration saved successfully'') Success st1)
      | (Inl e, st1) \<Rightarrow>
          (False,
           broadcastLog (cross_mark @ '' Failed to save config: '' @ error_message e) Error st1))"

definition updateWorldConfig :: "string \<Rightarrow> state \<Rightarrow> state" where
  "updateWorldConfig seed' st =
     (let w = (case world (config st) of
                 None \<Rightarrow> \<lparr>currentSeed = None, lastUsedSeed = None, worldGenerated = None\<rparr>
               | Some w \<Rightarrow> w);
          w' = w\<lparr>lastUsedSeed := Some seed', currentSeed := Some seed',
                 worldGenerated := Some False\<rparr>
      in snd (saveConfig (st\<lparr>config := (config st)\<lparr>world := Some w'\<rparr>\<rparr>)))"

definition markWorldAsGenerated :: "state \<Rightarrow> state" where
  "markWorldAsGenerated st =
     (let w = (case world (config st) of
                 None \<Rightarrow> \<lparr>currentSeed = None, lastUsedSeed = None, worldGenerated = None\<rparr>
               | Some w \<Rightarrow> w);
          w' = w\<lparr>worldGenerated := Some True\<rparr>
      in snd (saveConfig (st\<lparr>config := (config st)\<lparr>world := Some w'\<rparr>\<rparr>)))"

text \<open>
  The recursion of \<open>copyDirectorySync\<close> follows the directories that it finds, so its
  depth is bounded only by the call stack: the first argument is the room left on it, and
  a call with none left throws \<open>RangeError\<close>. \<open>copyEach\<close> is the \<open>forEach\<close> over the entries.
\<close>

fun copyDirectorySync :: "nat \<Rightarrow> path \<Rightarrow> path \<Rightarrow> state \<Rightarrow> (error + unit) \<times> state"
  and copyEach :: "nat \<Rightarrow> string list \<Rightarrow> path \<Rightarrow> path \<Rightarrow> state \<Rightarrow> (error + unit) \<times> state"
where
  "copyDirectorySync 0 src dest st = (Inl RangeError, st)"
| "copyDirectorySync (Suc depth) src dest st =
     (case statSync src st of
        (Inl e, st1) \<Rightarrow> (Inl e, st1)
      | (Inr isDirectory, st1) \<Rightarrow>
          if isDirectory then
            (case mkdirSync dest st1 of
               (Inl e, st2) \<Rightarrow> (Inl e, st2)
             | (Inr _, st2) \<Rightarrow>
                 (case readdirSync src st2 of
                    (Inl e, st3) \<Rightarrow> (Inl e, st3)
                  | (Inr files, st3) \<Rightarrow> copyEach depth files src dest st3))
          else copyFileSync src dest st1)"
| "copyEach depth [] src dest st = (Inr (), st)"
| "copyEach depth (file # files) src dest st =
     (case copyDirectorySync depth (path_join src file) (path_join dest file) st of
        (Inl e, st1) \<Rightarrow> (Inl e, st1)
      | (Inr _, st1) \<Rightarrow> copyEach depth files src dest st1)"

definition removeDirectorySync :: "path \<Rightarrow> state \<Rightarrow> (error + unit) \<times> state" where
  "removeDirectorySync dirPath st =
     (case existsSync dirPath st of
        (True, st1) \<Rightarrow> rmSync dirPath st1
      | (False, st1) \<Rightarrow> (Inr (), st1))"

text \<open>\<open>{ success: true, backupPath }\<close> or \<open>{ success: false, error }\<close>.\<close>

datatype backup_result = Backed string | NotBacked string

fun success :: "backup_result \<Rightarrow> bool" where
  "success (Backed _) = True"
| "success (NotBacked _) = False"

definition worldName :: "state \<Rightarrow> string" where
  "worldName st = js_or (levelName (server (config st))) ''world''"

definition worldPath :: "state \<Rightarrow> path" where
  "worldPath st = path_join (serverPath st) (worldName st)"

text \<open>\<open>toISOString().replace(/[:.]/g, '-')\<close>.\<close>

definition stamp :: "string \<Rightarrow> string" where
  "stamp s = map (\<lambda>c. if c = CHR '':'' \<or> c = CHR ''.'' then CHR ''-'' else c) s"

definition backupExistingWorld :: "state \<Rightarrow> backup_result \<times> state" where
  "backupExistingWorld st =
     (case new_Date st of (d, st1) \<Rightarrow>
       (let backupName = worldName st @ ''_backup_'' @ stamp (iso d);
            backupPath' = path_join (serverPath st) backupName;
            st2 = broadcastLog (package_box @ '' Creating backup of existing world...'') Info st1
        in case mkdirSync backupPath' st2 of
             (Inl e, st3) \<Rightarrow> (NotBacked (error_message e), st3)
           | (Inr _, st3) \<Rightarrow>
              (case copyDirectorySync (stackDepth st3) (worldPath st) backupPath' st3 of
                 (Inl e, st4) \<Rightarrow> (NotBacked (error_message e), st4)
               | (Inr _, st4) \<Rightarrow>
                  (let st5 = broadcastLog (check_mark @ '' World backup created: '' @ backupName)
                               Success st4;
                       st6 = broadcastLog (file_folder @ '' Backup location: ''
                                             @ path_str backupPath') Info st5
                   in case removeDirectorySync (worldPath st) st6 of
                        (Inl e, st7) \<Rightarrow> (NotBacked (error_message e), st7)
                      | (Inr _, st7) \<Rightarrow>
                          (Backed backupName,
                           broadcastLog (wastebasket @
                             '' Original world removed to make space for new world'')
                             Info st7)))))"

record seed_check =
  shouldCreateNew :: bool
  reason :: string
  backupPath :: "string option"

definition checkSeedChange :: "state \<Rightarrow> seed_check \<times> state" where
  "checkSeedChange st =
     (let current = js_or (seed (server (config st))) '''';
          lastUsed = (case world (config st) of
                        None \<Rightarrow> ''''
                      | Some w \<Rightarrow> js_or (lastUsedSeed w) '''')
      in case existsSync (worldPath st) st of (worldExists, st1) \<Rightarrow>
       (let st2 = broadcastLog (seedling @ '' Checking world seed configuration...'') Info st1
        in if \<not> worldExists then
             (let st3 = broadcastLog (new_button @
                          '' No existing world found - will generate new world'') Info st2;
                  st4 = (if current \<noteq> [] then
                           broadcastLog (seedling @ '' New world will use seed: '' @ current)
                             Info st3
                         else broadcastLog (game_die @ '' New world will use random seed'')
                                Info st3)
              in (\<lparr>shouldCreateNew = True, reason = ''no_world_exists'', backupPath = None\<rparr>,
                  updateWorldConfig current st4))
           else if current \<noteq> lastUsed then
             (let st3 = broadcastLog (arrows_circle @ '' Seed change detected!'') Warn st2;
                  st4 = broadcastLog (bar_chart @ '' Previous seed: '' @ dquote @ lastUsed
                                        @ dquote) Info st3;
                  st5 = broadcastLog (new_button @ '' New seed: '' @ dquote @ current @ dquote)
                          Info st4
              in case backupExistingWorld st5 of
                   (Backed name, st6) \<Rightarrow>
                     (\<lparr>shouldCreateNew = True, reason = ''seed_changed'',
                       backupPath = Some name\<rparr>,
                      updateWorldConfig current st6)
                 | (NotBacked err, st6) \<Rightarrow>
                     (\<lparr>shouldCreateNew = False, reason = ''backup_failed'', backupPath = None\<rparr>,
                      broadcastLog (warning_sign @
                        '' Keeping existing world to prevent data loss'') Warn
                        (broadcastLog (cross_mark @ '' Failed to backup world: '' @ err)
                           Error st6)))
           else
             (\<lparr>shouldCreateNew = False, reason = ''seed_unchanged'', backupPath = None\<rparr>,
              broadcastLog (check_mark @ '' Using existing world (seed unchanged)'')
                Success st2)))"

section \<open>The tunnel process\<close>

text \<open>\<open>/^(.+?)\s+=>\s+127\.0\.0\.1:(\d+)/\<close>, matched at the start of a line.\<close>

definition tunnel_rx :: rx where
  "tunnel_rx =
     Cat (Grp (PlusL AnyC))
       (Cat (PlusG SpaceC)
         (Cat (Chars ''=>'')
           (Cat (PlusG SpaceC)
             (Cat (Chars ''127.0.0.1:'') (Grp (PlusG DigitC))))))"

text \<open>\<open>/Visit link to setup (https:\/\/playit\.gg\/claim\/[a-zA-Z0-9]+)/\<close>.\<close>

definition setup_rx :: rx where
  "setup_rx =
     Cat (Chars ''Visit link to setup '')
       (Grp (Cat (Chars ''https://playit.gg/claim/'') (PlusG AlnumC)))"

text \<open>\<open>output.split('\n')\<close>.\<close>

fun split_lines :: "string \<Rightarrow> string list" where
  "split_lines [] = [[]]"
| "split_lines (c # s) =
     (if c = CHR 0x0A then [] # split_lines s
      else (case split_lines s of [] \<Rightarrow> [[c]] | l # ls \<Rightarrow> (c # l) # ls))"

text \<open>
  The body of the loop of \<open>parsePlayitOutput\<close> for one line; the flag is \<open>tunnelsFound\<close>.
  A match of \<open>tunnel_rx\<close> has its two groups.
\<close>

definition parsePlayitLine :: "string \<Rightarrow> bool \<times> state \<Rightarrow> bool \<times> state" where
  "parsePlayitLine line acc =
     (case acc of (tunnelsFound, st) \<Rightarrow>
       (case match_here tunnel_rx line of
          Some (g1 # g2 # _) \<Rightarrow>
            (let address = trim g1; port = g2
             in if port = ''25565'' then
                  (if playitJava st \<noteq> Some address then
                     (True, broadcastLog (video_game @ '' Java tunnel ready: '' @ address) Success
                              (st\<lparr>playitJava := Some address\<rparr>))
                   else (True, st))
                else if port = ''19132'' then
                  (if playitBedrock st \<noteq> Some address then
                     (True, broadcastLog (mobile_phone @ '' Bedrock tunnel ready: '' @ address)
                              Success (st\<lparr>playitBedrock := Some address\<rparr>))
                   else (True, st))
                else (True, st))
        | _ \<Rightarrow> (tunnelsFound, st)))"

definition parsePlayitOutput :: "string \<Rightarrow> state \<Rightarrow> bool \<times> state" where
  "parsePlayitOutput output st = fold parsePlayitLine (split_lines output) (False, st)"

definition resetPlayitState :: "state \<Rightarrow> state" where
  "resetPlayitState st =
     st\<lparr>playitJava := None, playitBedrock := None, playitTunnelsDetected := False,
        playitSetupUrl := None\<rparr>"

definition stopPlayitTunnel :: "state \<Rightarrow> state" where
  "stopPlayitTunnel st =
     (case playitProcess st of
        None \<Rightarrow> st
      | Some pid \<Rightarrow>
          (kill pid ''SIGTERM'' (broadcastLog (meridians @ '' Stopping Playit tunnels...'') Info st))
            \<lparr>playitProcess := None, playitJava := None, playitBedrock := None,
             playitTunnelsDetected := False\<rparr>)"

definition startPlayitTunnel :: "state \<Rightarrow> state" where
  "startPlayitTunnel st =
     (if \<not> playitInstalled st then
        broadcastLog (warning_sign @ '' Playit.gg not installed - skipping tunnel creation'')
          Warn st
      else if playitProcess st \<noteq> None then
        broadcastLog (warning_sign @ '' Playit tunnel already running'') Warn st
      else
        (case spawn (playitPath st) [] None
                (broadcastLog (meridians @ '' Starting Playit.gg tunnels for public access...'')
                   Info st) of
           (pid, st1) \<Rightarrow> st1\<lparr>playitProcess := Some pid\<rparr>))"

text \<open>The handlers of the tunnel process: a chunk of its output, and its exit.\<close>

definition onPlayitStdout :: "string \<Rightarrow> state \<Rightarrow> state" where
  "onPlayitStdout data st =
     (let output = trim data
      in if output \<noteq> lastPlayitOutput st then
           (let st1 = st\<lparr>lastPlayitOutput := output\<rparr>;
                st2 = (case group1 (js_match setup_rx output) of
                         Some url \<Rightarrow>
                           broadcastLog (''[PLAYIT]: Setup required - Click '' @ dquote
                               @ ''Setup Instructions'' @ dquote @ '' button for help'') Warn
                             (st1\<lparr>playitSetupUrl := Some url\<rparr>)
                       | None \<Rightarrow> st1);
                st3 = (if str_includes output ''Program approved'' then
                         broadcastLog ''[PLAYIT]: Program approved - Setting up tunnels...''
                           Success st2
                       else st2)
            in case parsePlayitOutput output st3 of
                 (tunnelsFound, st4) \<Rightarrow>
                   if tunnelsFound \<and> \<not> playitTunnelsDetected st4 then
                     broadcastLog ''[PLAYIT]: Tunnels detected and active!'' Success
                       (st4\<lparr>playitTunnelsDetected := True\<rparr>)
                   else st4)
         else st)"

definition onPlayitClose :: "int option \<Rightarrow> state \<Rightarrow> state" where
  "onPlayitClose code st =
     (broadcastLog (meridians @ '' Playit tunnel exited with code '' @ tmpl_code code)
        (if code = Some 0 then Info else Error) st)
       \<lparr>playitProcess := None, playitJava := None, playitBedrock := None,
        playitTunnelsDetected := False\<rparr>"

section \<open>The server process\<close>

definition onMinecraftClose :: "int option \<Rightarrow> state \<Rightarrow> state" where
  "onMinecraftClose code st =
     (let st1 = broadcastLog (stop_button @ '' Minecraft server exited with code ''
                                @ tmpl_code code)
                  (if code = Some 0 then Info else Error) st;
          st2 = st1\<lparr>minecraftProcess := None, serverStatus := Offline, serverReady := False,
                    startTime := None\<rparr>;
          st3 = stopPlayitTunnel (resetPlayitState st2)
      in if code \<noteq> Some 0 then
           broadcastLog (collision @ '' Server crashed! Check the error messages above.'')
             Error st3
         else broadcastLog (check_mark @ '' Server stopped normally.'') Success st3)"

definition startMinecraftServer :: "state \<Rightarrow> state" where
  "startMinecraftServer st =
     (if minecraftProcess st \<noteq> None then
        broadcastLog (warning_sign @ '' Server already running'') Warn st
      else
       (case checkSeedChange st of (seedCheck, st1) \<Rightarrow>
        (let st2 =
               (if shouldCreateNew seedCheck then
                  (if reason seedCheck = ''seed_changed'' then
                     broadcastLog (package_box @ '' Previous world backed up as: ''
                                     @ tmpl (backupPath seedCheck)) Info
                       (broadcastLog (party_popper @ '' New world will be generated with seed: ''
                                        @ tmpl (seed (server (config st1)))) Success st1)
                   else if reason seedCheck = ''no_world_exists'' then
                     broadcastLog (new_button @ '' Generating new world...'') Success st1
                   else st1)
                else st1);
             st3 = st2\<lparr>serverStatus := Starting, serverReady := False\<rparr>
         in case new_Date st3 of (d, st4) \<Rightarrow>
          (let st5 = st4\<lparr>startTime := Some (epochMs d)\<rparr>;
               st6 = broadcastLog (rocket @ '' STARTING MINECRAFT CROSSPLAY SERVER'') Success st5;
               st7 = broadcastLog (house @ '' Local IP: '' @ localIP st6) Info st6;
               st8 = broadcastLog (meridians @ '' Public IP: ''
                                     @ js_or (publicIP st7) ''Detecting...'') Info st7;
               cfg = server (config st8);
               st9 = broadcastLog (video_game @ '' Game mode: '' @ tmpl (gamemode cfg)
                                     @ '', Difficulty: '' @ tmpl (difficulty cfg)) Info st8;
               st10 = broadcastLog (people @ '' Max players: '' @ tmpl_int (maxPlayers cfg))
                        Info st9;
               st11 = (if js_or (seed cfg) '''' \<noteq> [] then
                         broadcastLog (seedling @ '' World seed: '' @ tmpl (seed cfg)) Info st10
                       else st10);
               st12 = (if playitInstalled st11 \<and> autoStart (playit (config st11)) then
                         startPlayitTunnel
                           (broadcastLog (meridians @
                              '' Playit.gg detected - Starting public tunnels...'') Success st11)
                       else broadcastLog (warning_sign @
                              '' Playit.gg not installed - Server will only be available locally/LAN'')
                              Warn st11);
               st13 = broadcastLog (hourglass @ '' Please wait while server initializes...'')
                        Info st12;
               perf = performance (config st13);
               javaArgs = [''-Xmx'' @ tmpl (maxMemory perf), ''-Xms'' @ tmpl (minMemory perf),
                           ''-XX:+UseG1GC'', ''-XX:+UnlockExperimentalVMOptions'',
                           ''-XX:MaxGCPauseMillis=100'', ''-jar'', jarFile st13, ''nogui'']
           in case spawn ''java'' javaArgs (Some (serverPath st13)) st13 of
                (pid, st14) \<Rightarrow> st14\<lparr>minecraftProcess := Some pid\<rparr>))))"

definition stopMinecraftServer :: "state \<Rightarrow> state" where
  "stopMinecraftServer st =
     (case minecraftProcess st of
        None \<Rightarrow> st
      | Some pid \<Rightarrow>
          (let st1 = st\<lparr>serverStatus := Stopping\<rparr>;
               st2 = broadcastLog (stop_button @ '' Stopping Minecraft server...'') Info st1;
               st3 = stopPlayitTunnel (resetPlayitState st2)
           in stdin_write pid (''stop'' @ [CHR 0x0A]) st3))"

text \<open>The handler of \<open>POST /start\<close>, with the JSON document that it answers.\<close>

record response =
  res_success :: bool
  res_message :: string
  res_status :: "string option"

definition start_route :: "state \<Rightarrow> response \<times> state" where
  "start_route st =
     (if serverStatus st = Starting \<or> serverStatus st = Online then
        (\<lparr>res_success = False, res_message = ''Server is already starting or running'',
          res_status = None\<rparr>, st)
      else
        (\<lparr>res_success = True, res_message = ''Server is starting...'',
          res_status = Some ''starting''\<rparr>,
         startMinecraftServer st))"

section \<open>Notions of the specification\<close>

subsection \<open>The ordered rule table of the classifier\<close>

text \<open>
  The specification gives the classifier as an ordered list of rules, each a condition, a
  category and a decoration, of which the first whose condition holds is applied; the last
  rule is the default. \<open>classify\<close> follows these words, to be compared with
  \<open>parseMinecraftLog\<close>.
\<close>

type_synonym rule = "(string \<Rightarrow> bool) \<times> log_type \<times> (string \<Rightarrow> string)"

definition classify_rules :: "rule list" where
  "classify_rules =
    [(\<lambda>m. str_includes m ''joined the game'', Player,
      \<lambda>m. green_circle @ '' '' @ tmpl (group1 (js_match joined_rx m)) @ '' joined the game''),
     (\<lambda>m. str_includes m ''left the game'', Player,
      \<lambda>m. red_circle @ '' '' @ tmpl (group1 (js_match left_rx m)) @ '' left the game''),
     (\<lambda>m. str_includes m ''<'' \<and> str_includes m ''>'', Player,
      \<lambda>m. speech_balloon @ '' '' @ m),
     (\<lambda>m. str_includes m ''Starting minecraft server version'', Success,
      \<lambda>m. rocket @ '' '' @ m),
     (\<lambda>m. str_includes m ''Done ('' \<and>
           str_includes m (''For help, type '' @ [CHR 0x22] @ ''help'' @ [CHR 0x22]), Success,
      \<lambda>m. check_mark @ '' Server startup complete! '' @ m),
     (\<lambda>m. str_includes m ''Preparing spawn area'' \<or> str_includes m ''Preparing level'', World,
      \<lambda>m. globe @ '' '' @ m),
     (\<lambda>m. str_includes m ''Time elapsed:'', World,
      \<lambda>m. stopwatch @ '' '' @ m),
     (\<lambda>m. str_includes m ''Loading'' \<and> str_includes m ''plugin'', Info,
      \<lambda>m. electric_plug @ '' '' @ m),
     (\<lambda>m. str_includes m ''Enabling'' \<and> str_includes m ''plugin'', Success,
      \<lambda>m. check_mark @ '' '' @ m),
     (\<lambda>m. str_includes m ''Geyser'' \<and> str_includes m ''Started Geyser'', Success,
      \<lambda>m. link_symbol @ '' Crossplay bridge (Geyser) is ONLINE!''),
     (\<lambda>m. str_includes m ''ViaVersion'' \<and> str_includes m ''enabled'', Success,
      \<lambda>m. arrows_circle @ '' Multi-version support (ViaVersion) is ONLINE!''),
     (\<lambda>m. str_includes m ''ERROR'' \<or> str_includes m ''SEVERE'', Error,
      \<lambda>m. cross_mark @ '' '' @ m),
     (\<lambda>m. str_includes m ''WARN'', Warn,
      \<lambda>m. warning_sign @ '' '' @ m),
     (\<lambda>m. True, Info, \<lambda>m. m)]"

fun first_match :: "rule list \<Rightarrow> string \<Rightarrow> (log_type \<times> string) option" where
  "first_match [] m = None"
| "first_match ((p, c, f) # rs) m = (if p m then Some (c, f m) else first_match rs m)"

definition classify :: "string \<Rightarrow> (log_type \<times> string) option" where
  "classify m = first_match classify_rules m"

subsection \<open>A word before a literal\<close>

text \<open>
  \<open>word_before lit s\<close>: some substring of \<open>s\<close> is one or more word characters followed by
  \<open>lit\<close>. \<open>word_then\<close> decides it, on the last character of the word.
\<close>

definition word_before :: "string \<Rightarrow> string \<Rightarrow> bool" where
  "word_before lit s =
     (\<exists>u w v. s = u @ w @ lit @ v \<and> w \<noteq> [] \<and> (\<forall>c\<in>set w. is_word_char c))"

fun word_then :: "string \<Rightarrow> string \<Rightarrow> bool" where
  "word_then lit [] = False"
| "word_then lit (c # s) = ((is_word_char c \<and> prefix lit s) \<or> word_then lit s)"

subsection \<open>Sequences of appends to the log buffer\<close>

text \<open>The entry that \<open>broadcastLog\<close> makes in a state, from two readings of the clock.\<close>

definition entry_of :: "string \<Rightarrow> log_type \<Rightarrow> state \<Rightarrow> log_entry" where
  "entry_of msg ty st =
     \<lparr>timestamp = iso (clock st (ticks st)), message = msg, type = ty,
      time = localeTime (clock st (Suc (ticks st)))\<rparr>"

fun append_all :: "(string \<times> log_type) list \<Rightarrow> state \<Rightarrow> state" where
  "append_all [] st = st"
| "append_all ((msg, ty) # ms) st = append_all ms (broadcastLog msg ty st)"

fun entries_all :: "(string \<times> log_type) list \<Rightarrow> state \<Rightarrow> log_entry list" where
  "entries_all [] st = []"
| "entries_all ((msg, ty) # ms) st = entry_of msg ty st # entries_all ms (broadcastLog msg ty st)"

text \<open>The last \<open>n\<close> elements of a list.\<close>

definition window :: "nat \<Rightarrow> 'a list \<Rightarrow> 'a list" where
  "window n xs = drop (length xs - n) xs"

text \<open>The entries emitted between two states, as pairs of category and message.\<close>

definition emitted_since :: "state \<Rightarrow> state \<Rightarrow> (log_type \<times> string) list" where
  "emitted_since st st' =
     zip (map type (drop (length (emitted st)) (emitted st')))
         (map message (drop (length (emitted st)) (emitted st')))"

subsection \<open>A concrete manager\<close>

text \<open>
  The document that \<open>createDefaultConfig\<close> writes, and the manager as its constructor
  leaves it on that document, with the server directory in place and no tunnel program
  installed. The examples below start from it.
\<close>

definition defaultConfig :: config where
  "defaultConfig =
     \<lparr>server = \<lparr>seed = Some '''', levelName = Some ''world'', gamemode = Some ''survival'',
                difficulty = Some ''easy'', maxPlayers = Some 20,
                otherSettings =
                  [(''description'',
                    ''Welcome to our Minecraft Crossplay Server! Java & Bedrock players welcome!''),
                   (''pvp'', ''true''), (''enableCommandBlock'', ''true''),
                   (''allowNether'', ''true''), (''allowEnd'', ''true''),
                   (''spawnProtection'', ''0''), (''viewDistance'', ''10''),
                   (''simulationDistance'', ''10''), (''onlineMode'', ''false''),
                   (''enableWhitelist'', ''false''), (''forceResourcePack'', ''false'')]\<rparr>,
      performance = \<lparr>maxMemory = Some ''3G'', minMemory = Some ''1G''\<rparr>,
      playit = \<lparr>autoStart = True\<rparr>,
      world = Some \<lparr>currentSeed = Some '''', lastUsedSeed = Some '''',
                    worldGenerated = Some False\<rparr>\<rparr>"

definition sample_clock :: "nat \<Rightarrow> date" where
  "sample_clock n =
     \<lparr>iso = ''2024-05-01T12:00:00.000Z'', localeTime = ''12:00:00'', epochMs = n\<rparr>"

definition sample_state :: state where
  "sample_state =
     \<lparr>minecraftProcess = None, playitProcess = None,
      serverPath = [''minecraft-server''], jarFile = ''paper-server.jar'',
      localIP = ''localhost'', publicIP = None,
      serverStatus = Offline, startTime = None, serverReady = False,
      logs = [], maxLogs = 1000, config = defaultConfig,
      playitInstalled = False, playitPath = '''',
      playitJava = None, playitBedrock = None, lastPlayitOutput = '''',
      playitTunnelsDetected = False, playitSetupUrl = None,
      root = Dir [(''config.json'', File (ConfigJson defaultConfig)),
                  (''minecraft-server'', Dir [(''eula.txt'', File (Raw ''eula=true''))])],
      readonly = [], fsTrace = [],
      clock = sample_clock, ticks = 0, stackDepth = 64,
      spawned = [], signals = [], stdinWrites = [],
      emitted = [], console = []\<rparr>"

text \<open>The same manager with its server process running, online and about to stop.\<close>

definition sample_online :: state where
  "sample_online =
     sample_state\<lparr>minecraftProcess := Some 0, serverStatus := Online, serverReady := True,
                  startTime := Some 0,
                  spawned := [(0, ''java'', [''-Xmx3G'', ''-Xms1G'', ''-XX:+UseG1GC'',
                     ''-XX:+UnlockExperimentalVMOptions'', ''-XX:MaxGCPauseMillis=100'',
                     ''-jar'', ''paper-server.jar'', ''nogui''], Some [''minecraft-server''])]\<rparr>"

definition sample_stopping :: state where
  "sample_stopping = sample_online\<lparr>serverStatus := Stopping\<rparr>"

subsection \<open>The tunnel stopped and cleared\<close>

text \<open>
  Between \<open>st\<close> and \<open>st'\<close> the tunnel process \<open>pid\<close> was sent \<open>SIGTERM\<close> and nothing else
  was signalled, and \<open>st'\<close> shows no tunnel process, no binding and no setup URL.
\<close>

definition tunnel_cleared :: "nat \<Rightarrow> state \<Rightarrow> state \<Rightarrow> bool" where
  "tunnel_cleared pid st st' =
     (signals st' = signals st @ [(pid, ''SIGTERM'')] \<and>
      playitProcess st' = None \<and> playitJava st' = None \<and> playitBedrock st' = None \<and>
      playitSetupUrl st' = None \<and> \<not> playitTunnelsDetected st')"

text \<open>The manager online with the tunnel running, bound and once set up.\<close>

definition sample_tunnelled :: state where
  "sample_tunnelled =
     sample_online\<lparr>playitInstalled := True, playitPath := ''./playit'',
                   playitProcess := Some 1,
                   playitJava := Some ''myaddr.playit.gg'',
                   playitBedrock := Some ''other.playit.gg'',
                   playitTunnelsDetected := True,
                   playitSetupUrl := Some ''https://playit.gg/claim/abc123'',
                   spawned := spawned sample_online @ [(1, ''./playit'', [], None)]\<rparr>"

subsection \<open>Writes that the filesystem accepts\<close>

definition write_ok :: "state \<Rightarrow> path \<Rightarrow> content \<Rightarrow> bool" where
  "write_ok st p d = (case fs_write (readonly st) (root st) p d of Inl _ \<Rightarrow> False | Inr _ \<Rightarrow> True)"

text \<open>The manager with the seed \<open>12345\<close> configured while the last used seed is empty.\<close>

definition sample_new_seed :: state where
  "sample_new_seed =
     sample_state\<lparr>config := defaultConfig\<lparr>server := (server defaultConfig)\<lparr>seed := Some ''12345''\<rparr>\<rparr>\<rparr>"

text \<open>
  The same with a world on disk, of a level file and a region directory with one region
  file; in \<open>sample_locked\<close> the region directory is write-protected, so that its entry
  cannot be removed, and in \<open>sample_full\<close> the server directory is.
\<close>

definition sample_world :: state where
  "sample_world =
     sample_new_seed\<lparr>root :=
        Dir [(''config.json'', File (ConfigJson defaultConfig)),
             (''minecraft-server'',
              Dir [(''eula.txt'', File (Raw ''eula=true'')),
                   (''world'',
                    Dir [(''level.dat'', File (Raw ''level'')),
                         (''region'', Dir [(''r.0.0.mca'', File (Raw ''region''))])])])]\<rparr>"

definition sample_locked :: state where
  "sample_locked = sample_world\<lparr>readonly := [[''minecraft-server'', ''world'', ''region'']]\<rparr>"

definition sample_full :: state where
  "sample_full = sample_world\<lparr>readonly := [[''minecraft-server'']]\<rparr>"

subsection \<open>The copy and the removal in the trace of filesystem calls\<close>

text \<open>The calls made between two states.\<close>

definition fs_since :: "state \<Rightarrow> state \<Rightarrow> (fs_op \<times> bool) list" where
  "fs_since st st' = drop (length (fsTrace st)) (fsTrace st')"

text \<open>The calls of the copy, and the call that removes.\<close>

fun is_copy :: "fs_op \<times> bool \<Rightarrow> bool" where
  "is_copy (OpStat _, _) = True"
| "is_copy (OpMkdir _, _) = True"
| "is_copy (OpReaddir _, _) = True"
| "is_copy (OpCopyFile _ _, _) = True"
| "is_copy _ = False"

fun is_rm :: "fs_op \<times> bool \<Rightarrow> bool" where
  "is_rm (OpRm _, _) = True"
| "is_rm _ = False"

text \<open>
  \<open>copy_steps s r s'\<close>: from \<open>s\<close> to \<open>s'\<close> only calls of the copy were made, and all of them
  completed without error if the result \<open>r\<close> is not an error.
\<close>

definition copy_steps :: "state \<Rightarrow> error + 'a \<Rightarrow> state \<Rightarrow> bool" where
  "copy_steps s r s' =
     (\<exists>evs. fsTrace s' = fsTrace s @ evs \<and> (\<forall>e\<in>set evs. is_copy e) \<and>
            (\<not> isl r \<longrightarrow> (\<forall>e\<in>set evs. snd e)))"

text \<open>
  The copy of the world into the backup location, as \<open>backupExistingWorld\<close> does it:
  the backup directory is made, then \<open>copyDirectorySync\<close> copies the world into it.
\<close>

definition copy_into :: "path \<Rightarrow> path \<Rightarrow> state \<Rightarrow> (error + unit) \<times> state" where
  "copy_into src dest s =
     (case mkdirSync dest s of
        (Inl e, s1) \<Rightarrow> (Inl e, s1)
      | (Inr _, s1) \<Rightarrow> copyDirectorySync (stackDepth s1) src dest s1)"

section \<open>Facts about strings and matching\<close>

lemma str_includes_iff: "str_includes s needle \<longleftrightarrow> (\<exists>u v. s = u @ needle @ v)"
proof (induction s)
  case Nil
  then show ?case by auto
next
  case (Cons c s)
  have "(\<exists>u v. c # s = u @ needle @ v) \<longleftrightarrow> sublist needle (c # s)"
    by (simp add: sublist_def)
  also have "\<dots> \<longleftrightarrow> prefix needle (c # s) \<or> sublist needle s"
    by (rule sublist_Cons_right)
  also have "\<dots> \<longleftrightarrow> prefix needle (c # s) \<or> str_includes s needle"
    using Cons.IH by (simp add: sublist_def)
  finally show ?case by simp
qed

lemma word_beforeI:
  "s = u @ w @ lit @ v \<Longrightarrow> w \<noteq> [] \<Longrightarrow> \<forall>c\<in>set w. is_word_char c \<Longrightarrow> word_before lit s"
  unfolding word_before_def by blast

lemma word_then_imp: "word_then lit s \<Longrightarrow> word_before lit s"
proof (induction s)
  case Nil
  then show ?case by simp
next
  case (Cons c s)
  show ?case
  proof (cases "is_word_char c \<and> prefix lit s")
    case True
    then obtain v where "s = lit @ v" by (auto simp: prefix_def)
    then have "c # s = [] @ [c] @ lit @ v" by simp
    then show ?thesis
      by (rule word_beforeI) (use True in simp_all)
  next
    case False
    with Cons.prems have "word_then lit s" by auto
    then have "word_before lit s" by (rule Cons.IH)
    then obtain u w v where uwv: "s = u @ w @ lit @ v" "w \<noteq> []" "\<forall>c\<in>set w. is_word_char c"
      unfolding word_before_def by blast
    from uwv(1) have "c # s = (c # u) @ w @ lit @ v" by simp
    then show ?thesis using uwv(2,3) by (rule word_beforeI)
  qed
qed

lemma word_then_append: "word_then lit s \<Longrightarrow> word_then lit (u @ s)"
  by (induction u) auto

lemma word_then_run:
  "w \<noteq> [] \<Longrightarrow> \<forall>c\<in>set w. is_word_char c \<Longrightarrow> word_then lit (w @ lit @ v)"
proof (induction w)
  case Nil
  then show ?case by simp
next
  case (Cons c w)
  show ?case
  proof (cases "w = []")
    case True
    with Cons.prems show ?thesis by simp
  next
    case False
    with Cons have "word_then lit (w @ lit @ v)" by simp
    then show ?thesis by simp
  qed
qed

lemma word_before_iff: "word_before lit s \<longleftrightarrow> word_then lit s"
proof
  assume "word_before lit s"
  then obtain u w v where "s = u @ w @ lit @ v" "w \<noteq> []" "\<forall>c\<in>set w. is_word_char c"
    unfolding word_before_def by blast
  then show "word_then lit s"
    using word_then_append word_then_run by simp
qed (rule word_then_imp)

text \<open>Every repetition count of \<open>\w+\<close> covers word characters only.\<close>

lemma run_ends_WordC:
  "n \<in> set (run_ends WordC t) \<Longrightarrow>
   0 < n \<and> n \<le> length t \<and> (\<forall>c\<in>set (take n t). is_word_char c)"
proof (induction WordC t arbitrary: n rule: run_ends.induct)
  case (1 s)
  show ?case
  proof (cases s)
    case Nil
    with "1.prems" show ?thesis by (simp add: run_ends.simps)
  next
    case (Cons x xs)
    show ?thesis
    proof (cases "is_word_char x")
      case False
      with Cons "1.prems" show ?thesis by (simp add: run_ends.simps cls_len_def)
    next
      case True
      with Cons have len: "cls_len WordC s = 1" by (simp add: cls_len_def)
      with Cons "1.prems" have "n = 1 \<or> (\<exists>m\<in>set (run_ends WordC xs). n = 1 + m)"
        by (subst (asm) run_ends.simps) auto
      then show ?thesis
      proof
        assume "n = 1"
        with Cons True show ?thesis by simp
      next
        assume "\<exists>m\<in>set (run_ends WordC xs). n = 1 + m"
        then obtain m where m: "m \<in> set (run_ends WordC xs)" "n = 1 + m" by blast
        have "0 < m \<and> m \<le> length xs \<and> (\<forall>c\<in>set (take m xs). is_word_char c)"
          using "1.hyps" [of m] len Cons m(1) by simp
        with m(2) Cons True show ?thesis by simp
      qed
    qed
  qed
qed

lemma first_some_map: "first_some (map f xs) = Some v \<Longrightarrow> \<exists>x\<in>set xs. f x = Some v"
proof (induction xs)
  case Nil
  then show ?case by simp
next
  case (Cons x xs)
  then show ?case by (cases "f x") auto
qed

lemma match_word_lit:
  assumes "match_here (Cat (Grp (PlusG WordC)) (Chars lit)) t = Some caps"
  shows "word_then lit t"
proof -
  from assms obtain n where n: "n \<in> set (run_ends WordC t)" "prefix lit (drop n t)"
    unfolding match_here_def by (auto dest!: first_some_map split: if_splits)
  from run_ends_WordC [OF n(1)]
  have "0 < n" "n \<le> length t" "\<forall>c\<in>set (take n t). is_word_char c" by auto
  from n(2) obtain v where "drop n t = lit @ v" by (auto simp: prefix_def)
  then have "t = take n t @ lit @ v" by (metis append_take_drop_id)
  moreover have "take n t \<noteq> []" using \<open>0 < n\<close> \<open>n \<le> length t\<close> by auto
  ultimately have "word_then lit (take n t @ lit @ v)"
    using word_then_run \<open>\<forall>c\<in>set (take n t). is_word_char c\<close> by blast
  with \<open>t = take n t @ lit @ v\<close> show ?thesis by simp
qed

lemma js_match_suffix:
  "js_match r s = Some caps \<Longrightarrow> \<exists>u t. s = u @ t \<and> match_here r t = Some caps"
proof (induction s)
  case Nil
  then show ?case by simp
next
  case (Cons c s)
  show ?case
  proof (cases "match_here r (c # s)")
    case (Some a)
    with Cons.prems have "match_here r (c # s) = Some caps" by simp
    then show ?thesis by (metis append_Nil)
  next
    case None
    with Cons.prems have "js_match r s = Some caps" by simp
    then obtain u t where "s = u @ t" "match_here r t = Some caps" using Cons.IH by blast
    then have "c # s = (c # u) @ t" by simp
    with \<open>match_here r t = Some caps\<close> show ?thesis by blast
  qed
qed

lemma no_word_no_match:
  assumes "\<not> word_before lit s"
  shows "js_match (Cat (Grp (PlusG WordC)) (Chars lit)) s = None"
proof (rule ccontr)
  assume "js_match (Cat (Grp (PlusG WordC)) (Chars lit)) s \<noteq> None"
  then obtain caps where "js_match (Cat (Grp (PlusG WordC)) (Chars lit)) s = Some caps" by auto
  then obtain u t where ut: "s = u @ t"
      "match_here (Cat (Grp (PlusG WordC)) (Chars lit)) t = Some caps"
    using js_match_suffix by blast
  then have "word_then lit t" using match_word_lit by blast
  then have "word_then lit s" using ut(1) word_then_append by simp
  with assms show False by (simp add: word_before_iff)
qed

section \<open>The log classifier\<close>

lemma first_match_step:
  "(p m \<Longrightarrow> A = (c, f m)) \<Longrightarrow> (\<not> p m \<Longrightarrow> first_match rs m = Some A) \<Longrightarrow>
   first_match ((p, c, f) # rs) m = Some A"
  by simp

lemma classify_refines:
  "classify line =
     Some (ptype (parseMinecraftLog line), pmessage (parseMinecraftLog line))"
  unfolding classify_def classify_rules_def
  apply (rule first_match_step, simp add: parseMinecraftLog_def Let_def)+
  apply simp
  done

lemma parse_empty: "parseMinecraftLog [] = \<lparr>ptype = Info, pmessage = [], original = []\<rparr>"
  by (simp add: parseMinecraftLog_def)

lemma parse_alice:
  "ptype (parseMinecraftLog ''Alice joined the game'') = Player \<and>
   pmessage (parseMinecraftLog ''Alice joined the game'') =
     green_circle @ '' Alice joined the game''"
  by (simp add: parseMinecraftLog_def joined_rx_def match_here_def group1_def run_ends.simps
      cls_len_def is_word_char_def is_alnum_char_def)

text \<open>
  C6. The classifier is a function of the line alone, defined on every line: it is the
  first matching rule of the ordered table, which always has one, and it keeps the line
  as \<open>original\<close>. The empty line is classified \<open>info\<close> with an empty message, and
  \<open>Alice joined the game\<close> is classified \<open>player\<close> with a message that contains \<open>Alice\<close>
  and \<open>joined\<close>.
\<close>

theorem classifier_total_first_match:
  "classify line =
     Some (ptype (parseMinecraftLog line), pmessage (parseMinecraftLog line)) \<and>
   original (parseMinecraftLog line) = line \<and>
   parseMinecraftLog [] = \<lparr>ptype = Info, pmessage = [], original = []\<rparr> \<and>
   ptype (parseMinecraftLog ''Alice joined the game'') = Player \<and>
   str_includes (pmessage (parseMinecraftLog ''Alice joined the game'')) ''Alice'' \<and>
   str_includes (pmessage (parseMinecraftLog ''Alice joined the game'')) ''joined''"
proof -
  have "original (parseMinecraftLog line) = line"
    by (simp add: parseMinecraftLog_def Let_def)
  moreover have "str_includes (green_circle @ '' Alice joined the game'') ''Alice''"
    and "str_includes (green_circle @ '' Alice joined the game'') ''joined''"
    by simp_all
  ultimately show ?thesis
    using classify_refines [of line] parse_empty parse_alice by simp
qed

theorem classifier_total_first_match_witness:
  "classify ''[Server thread/WARN]: Can't keep up!'' =
     Some (Warn, warning_sign @ '' [Server thread/WARN]: Can't keep up!'')"
proof -
  have "parseMinecraftLog ''[Server thread/WARN]: Can't keep up!'' =
      \<lparr>ptype = Warn, pmessage = warning_sign @ '' [Server thread/WARN]: Can't keep up!'',
       original = ''[Server thread/WARN]: Can't keep up!''\<rparr>"
    by (simp add: parseMinecraftLog_def)
  with classifier_total_first_match [of "''[Server thread/WARN]: Can't keep up!''"]
  show ?thesis by simp
qed

text \<open>
  C10. A line that contains \<open>joined the game\<close> but no run of one or more word characters
  followed by \<open> joined the game\<close> is classified \<open>player\<close>, and its message has the text
  \<open>undefined\<close> where the player name would be.
\<close>

theorem joined_without_name:
  assumes "str_includes s ''joined the game''"
    and "\<not> word_before '' joined the game'' s"
  shows "ptype (parseMinecraftLog s) = Player \<and>
         pmessage (parseMinecraftLog s) = green_circle @ '' undefined joined the game'' \<and>
         str_includes (pmessage (parseMinecraftLog s)) ''undefined''"
proof -
  have "js_match joined_rx s = None"
    unfolding joined_rx_def using assms(2) by (rule no_word_no_match)
  with assms(1) show ?thesis
    by (simp add: parseMinecraftLog_def group1_def)
qed

theorem joined_without_name_witness:
  "str_includes ''joined the game'' ''joined the game'' \<and>
   \<not> word_before '' joined the game'' ''joined the game'' \<and>
   ptype (parseMinecraftLog ''joined the game'') = Player \<and>
   pmessage (parseMinecraftLog ''joined the game'') =
     green_circle @ '' undefined joined the game''"
proof -
  have a: "str_includes ''joined the game'' ''joined the game''" by simp
  have b: "\<not> word_before '' joined the game'' ''joined the game''"
    by (simp add: word_before_iff)
  from joined_without_name [OF a b] a b show ?thesis by blast
qed

section \<open>The log buffer\<close>

lemma broadcastLog_env [simp]:
  "minecraftProcess (broadcastLog m t st) = minecraftProcess st"
  "playitProcess (broadcastLog m t st) = playitProcess st"
  "serverPath (broadcastLog m t st) = serverPath st"
  "jarFile (broadcastLog m t st) = jarFile st"
  "localIP (broadcastLog m t st) = localIP st"
  "publicIP (broadcastLog m t st) = publicIP st"
  "serverStatus (broadcastLog m t st) = serverStatus st"
  "startTime (broadcastLog m t st) = startTime st"
  "serverReady (broadcastLog m t st) = serverReady st"
  "maxLogs (broadcastLog m t st) = maxLogs st"
  "config (broadcastLog m t st) = config st"
  "playitInstalled (broadcastLog m t st) = playitInstalled st"
  "playitPath (broadcastLog m t st) = playitPath st"
  "playitJava (broadcastLog m t st) = playitJava st"
  "playitBedrock (broadcastLog m t st) = playitBedrock st"
  "lastPlayitOutput (broadcastLog m t st) = lastPlayitOutput st"
  "playitTunnelsDetected (broadcastLog m t st) = playitTunnelsDetected st"
  "playitSetupUrl (broadcastLog m t st) = playitSetupUrl st"
  "root (broadcastLog m t st) = root st"
  "readonly (broadcastLog m t st) = readonly st"
  "fsTrace (broadcastLog m t st) = fsTrace st"
  "clock (broadcastLog m t st) = clock st"
  "stackDepth (broadcastLog m t st) = stackDepth st"
  "spawned (broadcastLog m t st) = spawned st"
  "signals (broadcastLog m t st) = signals st"
  "stdinWrites (broadcastLog m t st) = stdinWrites st"
  by (simp_all add: broadcastLog_def new_Date_def Let_def)

lemma broadcastLog_emitted [simp]:
  "emitted (broadcastLog m t st) = emitted st @ [entry_of m t st]"
  by (simp add: broadcastLog_def new_Date_def Let_def entry_of_def)

lemma broadcastLog_ticks [simp]: "ticks (broadcastLog m t st) = Suc (Suc (ticks st))"
  by (simp add: broadcastLog_def new_Date_def Let_def)

lemma broadcastLog_logs:
  "logs (broadcastLog m t st) =
     (if length (logs st) + 1 > maxLogs st
      then slice_last (maxLogs st) (logs st @ [entry_of m t st])
      else logs st @ [entry_of m t st])"
  by (simp add: broadcastLog_def new_Date_def Let_def entry_of_def)

lemma entry_of_fields [simp]:
  "message (entry_of m t st) = m" "type (entry_of m t st) = t"
  by (simp_all add: entry_of_def)

lemma window_append: "window n (window n xs @ ys) = window n (xs @ ys)"
proof (cases "length xs \<le> n")
  case True
  then show ?thesis by (simp add: window_def)
next
  case False
  then have "length ys + (length xs - n) = length xs + length ys - n"
    and "length xs - (length xs - n) = n"
    by arith+
  with False show ?thesis by (simp add: window_def)
qed

lemma length_window: "length (window n xs) \<le> n"
  by (simp add: window_def)

lemma broadcastLog_window:
  "0 < maxLogs st \<Longrightarrow>
   logs (broadcastLog m t st) = window (maxLogs st) (logs st @ [entry_of m t st])"
  by (auto simp: broadcastLog_logs slice_last_def window_def)

lemma append_all_emitted: "emitted (append_all ms st) = emitted st @ entries_all ms st"
  by (induction ms st rule: append_all.induct) simp_all

lemma entries_all_map: "map (\<lambda>e. (message e, type e)) (entries_all ms st) = ms"
  by (induction ms st rule: entries_all.induct) simp_all

lemma append_all_logs:
  "0 < maxLogs st \<Longrightarrow> length (logs st) \<le> maxLogs st \<Longrightarrow>
   logs (append_all ms st) = window (maxLogs st) (logs st @ entries_all ms st)"
proof (induction ms st rule: append_all.induct)
  case (1 st)
  then show ?case by (simp add: window_def)
next
  case (2 msg ty ms st)
  let ?s = "broadcastLog msg ty st"
  have l: "logs ?s = window (maxLogs st) (logs st @ [entry_of msg ty st])"
    using "2.prems"(1) by (rule broadcastLog_window)
  then have "length (logs ?s) \<le> maxLogs ?s" by (simp add: length_window)
  with "2.IH" "2.prems"(1)
  have "logs (append_all ms ?s) = window (maxLogs st) (logs ?s @ entries_all ms ?s)"
    by simp
  also have "\<dots> = window (maxLogs st) ((logs st @ [entry_of msg ty st]) @ entries_all ms ?s)"
    unfolding l by (rule window_append)
  finally show ?case by simp
qed

text \<open>
  C7. With the capacity of 1000 that the constructor sets, the buffer holds at most 1000
  entries after any sequence of appends, namely the last 1000 of what it held and what
  was appended, in the order of the appends. After 1500 appends it holds exactly 1000
  entries: the appended ones without the first 500.
\<close>

theorem log_buffer_bounded:
  assumes "maxLogs st = 1000" and "length (logs st) \<le> 1000"
  shows "length (logs (append_all ms st)) \<le> 1000 \<and>
         emitted (append_all ms st) = emitted st @ entries_all ms st \<and>
         map (\<lambda>e. (message e, type e)) (entries_all ms st) = ms \<and>
         logs (append_all ms st) = window 1000 (logs st @ entries_all ms st) \<and>
         (length ms = 1500 \<longrightarrow>
            length (logs (append_all ms st)) = 1000 \<and>
            logs (append_all ms st) = drop 500 (entries_all ms st))"
proof -
  let ?es = "entries_all ms st"
  have logs: "logs (append_all ms st) = window 1000 (logs st @ ?es)"
    using append_all_logs [of st ms] assms by simp
  have len: "length ?es = length ms"
    using entries_all_map [of ms st] by (metis length_map)
  have bound: "length (logs (append_all ms st)) \<le> 1000"
    unfolding logs by (rule length_window)
  have full: "length (logs (append_all ms st)) = 1000 \<and>
      logs (append_all ms st) = drop 500 ?es" if "length ms = 1500"
  proof -
    from that len have l: "length ?es = 1500" by simp
    with assms(2) have "length (logs st @ ?es) - 1000 = length (logs st) + 500" by simp
    then have "window 1000 (logs st @ ?es) = drop 500 ?es"
      by (simp add: window_def)
    with l show ?thesis by (simp add: logs)
  qed
  show ?thesis
  proof (intro conjI impI)
    show "length (logs (append_all ms st)) \<le> 1000" by (rule bound)
    show "emitted (append_all ms st) = emitted st @ ?es" by (rule append_all_emitted)
    show "map (\<lambda>e. (message e, type e)) ?es = ms" by (rule entries_all_map)
    show "logs (append_all ms st) = window 1000 (logs st @ ?es)" by (rule logs)
  next
    assume "length ms = 1500"
    then show "length (logs (append_all ms st)) = 1000" using full by blast
  next
    assume "length ms = 1500"
    then show "logs (append_all ms st) = drop 500 ?es" using full by blast
  qed
qed

theorem log_buffer_bounded_witness:
  "maxLogs sample_state = 1000 \<and> length (logs sample_state) \<le> 1000 \<and>
   length (replicate 1500 (''tick'', Info)) = 1500 \<and>
   length (logs (append_all (replicate 1500 (''tick'', Info)) sample_state)) = 1000 \<and>
   logs (append_all (replicate 1500 (''tick'', Info)) sample_state) =
     drop 500 (entries_all (replicate 1500 (''tick'', Info)) sample_state)"
proof -
  define ms where "ms = replicate 1500 (''tick'', Info)"
  have h1: "maxLogs sample_state = 1000" by (simp add: sample_state_def)
  have h2: "length (logs sample_state) \<le> 1000" by (simp add: sample_state_def)
  have h3: "length ms = 1500" by (simp add: ms_def)
  from log_buffer_bounded [OF h1 h2, of ms] h3
  have "length (logs (append_all ms sample_state)) = 1000 \<and>
        logs (append_all ms sample_state) = drop 500 (entries_all ms sample_state)"
    by blast
  with h1 h2 h3 show ?thesis unfolding ms_def by blast
qed

section \<open>The tunnel process\<close>

lemma emitted_since_same [simp]: "emitted_since st st = []"
  by (simp add: emitted_since_def)

lemma emitted_since_log [simp]:
  "emitted st0 = emitted st \<Longrightarrow> emitted_since st (broadcastLog m t st0) = [(t, m)]"
  by (simp add: emitted_since_def)

lemma tunnel_match_java:
  "match_here tunnel_rx ''myaddr.playit.gg => 127.0.0.1:25565'' =
     Some [''myaddr.playit.gg'', ''25565'']"
  by code_simp

lemma tunnel_match_bedrock:
  "match_here tunnel_rx ''myaddr.playit.gg => 127.0.0.1:19132'' =
     Some [''myaddr.playit.gg'', ''19132'']"
  by code_simp

lemma trim_myaddr: "trim ''myaddr.playit.gg'' = ''myaddr.playit.gg''"
  by code_simp

lemma parse_line_java:
  "parsePlayitOutput ''myaddr.playit.gg => 127.0.0.1:25565'' st =
     (True, if playitJava st \<noteq> Some ''myaddr.playit.gg''
            then broadcastLog (video_game @ '' Java tunnel ready: myaddr.playit.gg'') Success
                   (st\<lparr>playitJava := Some ''myaddr.playit.gg''\<rparr>)
            else st)"
  by (simp add: parsePlayitOutput_def parsePlayitLine_def tunnel_match_java trim_myaddr Let_def)

lemma parse_line_bedrock:
  "parsePlayitOutput ''myaddr.playit.gg => 127.0.0.1:19132'' st =
     (True, if playitBedrock st \<noteq> Some ''myaddr.playit.gg''
            then broadcastLog (mobile_phone @ '' Bedrock tunnel ready: myaddr.playit.gg'') Success
                   (st\<lparr>playitBedrock := Some ''myaddr.playit.gg''\<rparr>)
            else st)"
  by (simp add: parsePlayitOutput_def parsePlayitLine_def tunnel_match_bedrock trim_myaddr
      Let_def)

lemma parsePlayitLine_logs:
  "(playitJava (snd (parsePlayitLine l (b, st))) \<noteq> playitJava st \<or>
    playitBedrock (snd (parsePlayitLine l (b, st))) \<noteq> playitBedrock st)
   = (emitted_since st (snd (parsePlayitLine l (b, st))) \<noteq> []) \<and>
   length (emitted_since st (snd (parsePlayitLine l (b, st)))) \<le> 1"
  by (auto simp: parsePlayitLine_def Let_def split: option.splits list.splits)

text \<open>
  C8. The output \<open>myaddr.playit.gg => 127.0.0.1:25565\<close> sets the Java binding to
  \<open>myaddr.playit.gg\<close> and leaves the Bedrock binding as it was, and it is logged unless
  that was the Java binding already; the same holds with port 19132 and the two bindings
  exchanged. For every line, the loop body logs an entry exactly when it changes a
  binding, and then one entry only.
\<close>

theorem tunnel_line_binding:
  "playitJava (snd (parsePlayitOutput ''myaddr.playit.gg => 127.0.0.1:25565'' st)) =
     Some ''myaddr.playit.gg'' \<and>
   playitBedrock (snd (parsePlayitOutput ''myaddr.playit.gg => 127.0.0.1:25565'' st)) =
     playitBedrock st \<and>
   emitted_since st (snd (parsePlayitOutput ''myaddr.playit.gg => 127.0.0.1:25565'' st)) =
     (if playitJava st = Some ''myaddr.playit.gg'' then []
      else [(Success, video_game @ '' Java tunnel ready: myaddr.playit.gg'')]) \<and>
   playitBedrock (snd (parsePlayitOutput ''myaddr.playit.gg => 127.0.0.1:19132'' st)) =
     Some ''myaddr.playit.gg'' \<and>
   playitJava (snd (parsePlayitOutput ''myaddr.playit.gg => 127.0.0.1:19132'' st)) =
     playitJava st \<and>
   emitted_since st (snd (parsePlayitOutput ''myaddr.playit.gg => 127.0.0.1:19132'' st)) =
     (if playitBedrock st = Some ''myaddr.playit.gg'' then []
      else [(Success, mobile_phone @ '' Bedrock tunnel ready: myaddr.playit.gg'')]) \<and>
   (playitJava (snd (parsePlayitLine l (b, st))) \<noteq> playitJava st \<or>
    playitBedrock (snd (parsePlayitLine l (b, st))) \<noteq> playitBedrock st)
     = (emitted_since st (snd (parsePlayitLine l (b, st))) \<noteq> []) \<and>
   length (emitted_since st (snd (parsePlayitLine l (b, st)))) \<le> 1"
  using parsePlayitLine_logs [of l b st]
  by (simp add: parse_line_java parse_line_bedrock)

theorem tunnel_line_binding_witness:
  "playitJava (snd (parsePlayitOutput ''myaddr.playit.gg => 127.0.0.1:25565'' sample_state)) =
     Some ''myaddr.playit.gg'' \<and>
   playitBedrock (snd (parsePlayitOutput ''myaddr.playit.gg => 127.0.0.1:25565'' sample_state)) =
     None \<and>
   emitted_since sample_state
       (snd (parsePlayitOutput ''myaddr.playit.gg => 127.0.0.1:25565'' sample_state)) =
     [(Success, video_game @ '' Java tunnel ready: myaddr.playit.gg'')] \<and>
   emitted_since sample_tunnelled
       (snd (parsePlayitOutput ''myaddr.playit.gg => 127.0.0.1:25565'' sample_tunnelled)) = [] \<and>
   playitBedrock (snd (parsePlayitOutput ''myaddr.playit.gg => 127.0.0.1:25565'' sample_tunnelled)) =
     Some ''other.playit.gg''"
proof -
  have a: "playitJava sample_state = None" "playitBedrock sample_state = None"
    by (simp_all add: sample_state_def)
  have b: "playitJava sample_tunnelled = Some ''myaddr.playit.gg''"
    "playitBedrock sample_tunnelled = Some ''other.playit.gg''"
    by (simp_all add: sample_tunnelled_def sample_online_def sample_state_def)
  from tunnel_line_binding [of sample_state "[]" False]
    tunnel_line_binding [of sample_tunnelled "[]" False] a b
  show ?thesis by simp
qed

lemma stopPlayitTunnel_after_reset:
  "playitProcess st = Some pid \<Longrightarrow>
   tunnel_cleared pid st (stopPlayitTunnel (resetPlayitState st))"
  by (simp add: tunnel_cleared_def stopPlayitTunnel_def resetPlayitState_def kill_def)

lemma stopMinecraftServer_clears:
  "minecraftProcess st = Some m \<Longrightarrow> playitProcess st = Some pid \<Longrightarrow>
   tunnel_cleared pid st (stopMinecraftServer st)"
  by (simp add: tunnel_cleared_def stopMinecraftServer_def stopPlayitTunnel_def
      resetPlayitState_def kill_def stdin_write_def Let_def)

lemma onMinecraftClose_clears:
  "playitProcess st = Some pid \<Longrightarrow> tunnel_cleared pid st (onMinecraftClose code st)"
  by (simp add: tunnel_cleared_def onMinecraftClose_def stopPlayitTunnel_def
      resetPlayitState_def kill_def Let_def)

text \<open>
  C9. The tunnel is stopped by \<open>resetPlayitState\<close> followed by \<open>stopPlayitTunnel\<close>, which
  is how both callers, \<open>stopMinecraftServer\<close> and the exit handler of the server process,
  do it. With a tunnel process running, the pair sends it \<open>SIGTERM\<close> and leaves no tunnel
  process, no binding and no setup URL, and so does each caller.
\<close>

theorem tunnel_stop_clears:
  assumes "playitProcess st = Some pid"
  shows "tunnel_cleared pid st (stopPlayitTunnel (resetPlayitState st)) \<and>
         tunnel_cleared pid st (onMinecraftClose code st) \<and>
         (minecraftProcess st \<noteq> None \<longrightarrow> tunnel_cleared pid st (stopMinecraftServer st))"
  using assms stopPlayitTunnel_after_reset onMinecraftClose_clears stopMinecraftServer_clears
  by auto

theorem tunnel_stop_clears_witness:
  "playitProcess sample_tunnelled = Some 1 \<and>
   minecraftProcess sample_tunnelled \<noteq> None \<and>
   playitSetupUrl sample_tunnelled = Some ''https://playit.gg/claim/abc123'' \<and>
   playitJava sample_tunnelled = Some ''myaddr.playit.gg'' \<and>
   signals (stopMinecraftServer sample_tunnelled) = [(1, ''SIGTERM'')] \<and>
   playitProcess (stopMinecraftServer sample_tunnelled) = None \<and>
   playitJava (stopMinecraftServer sample_tunnelled) = None \<and>
   playitBedrock (stopMinecraftServer sample_tunnelled) = None \<and>
   playitSetupUrl (stopMinecraftServer sample_tunnelled) = None"
proof -
  have a: "playitProcess sample_tunnelled = Some 1"
    and b: "minecraftProcess sample_tunnelled \<noteq> None"
    and c: "playitSetupUrl sample_tunnelled = Some ''https://playit.gg/claim/abc123''"
       "playitJava sample_tunnelled = Some ''myaddr.playit.gg''"
       "signals sample_tunnelled = []"
    by (simp_all add: sample_tunnelled_def sample_online_def sample_state_def)
  from tunnel_stop_clears [OF a, of None] b
  have "tunnel_cleared 1 sample_tunnelled (stopMinecraftServer sample_tunnelled)" by blast
  with a b c show ?thesis by (simp add: tunnel_cleared_def)
qed

section \<open>The server process\<close>

lemma onMinecraftClose_fields:
  "serverStatus (onMinecraftClose code st) = Offline"
  "startTime (onMinecraftClose code st) = None"
  "minecraftProcess (onMinecraftClose code st) = None"
  "serverReady (onMinecraftClose code st) = False"
  "playitProcess (onMinecraftClose code st) = None"
  "playitJava (onMinecraftClose code st) = None"
  "playitBedrock (onMinecraftClose code st) = None"
  "playitSetupUrl (onMinecraftClose code st) = None"
  "playitTunnelsDetected (onMinecraftClose code st) = False"
  "spawned (onMinecraftClose code st) = spawned st"
  "stdinWrites (onMinecraftClose code st) = stdinWrites st"
  by (simp_all add: onMinecraftClose_def stopPlayitTunnel_def resetPlayitState_def kill_def
      Let_def split: option.splits)

lemma onMinecraftClose_log:
  "emitted_since st (onMinecraftClose code st) =
     [(if code = Some 0 then Info else Error,
       stop_button @ '' Minecraft server exited with code '' @ tmpl_code code)]
     @ (if playitProcess st = None then []
        else [(Info, meridians @ '' Stopping Playit tunnels...'')])
     @ [if code = Some 0 then (Success, check_mark @ '' Server stopped normally.'')
        else (Error, collision @ '' Server crashed! Check the error messages above.'')]"
  by (auto simp: onMinecraftClose_def stopPlayitTunnel_def resetPlayitState_def kill_def
      Let_def emitted_since_def split: option.splits)

lemma show_int_0: "show_int 0 = ''0''"
  by code_simp

text \<open>
  C5, as the program has it. When the server process ends, in whatever state and with
  whatever exit code, the state becomes \<open>Offline\<close>, the start time is cleared, no server
  or tunnel process is held, the bindings and the setup URL are cleared and nothing is
  spawned. The entries logged are: the exit code, classified \<open>info\<close> for code 0 and
  \<open>error\<close> otherwise; the stopping of the tunnel if one was running; and then
  \<open>Server stopped normally.\<close> classified \<open>success\<close> for code 0, or \<open>Server crashed!\<close>
  classified \<open>error\<close> otherwise.
\<close>

theorem exit_to_offline:
  "serverStatus (onMinecraftClose code st) = Offline \<and>
   startTime (onMinecraftClose code st) = None \<and>
   minecraftProcess (onMinecraftClose code st) = None \<and>
   playitProcess (onMinecraftClose code st) = None \<and>
   playitJava (onMinecraftClose code st) = None \<and>
   playitBedrock (onMinecraftClose code st) = None \<and>
   playitSetupUrl (onMinecraftClose code st) = None \<and>
   spawned (onMinecraftClose code st) = spawned st \<and>
   emitted_since st (onMinecraftClose code st) =
     [(if code = Some 0 then Info else Error,
       stop_button @ '' Minecraft server exited with code '' @ tmpl_code code)]
     @ (if playitProcess st = None then []
        else [(Info, meridians @ '' Stopping Playit tunnels...'')])
     @ [if code = Some 0 then (Success, check_mark @ '' Server stopped normally.'')
        else (Error, collision @ '' Server crashed! Check the error messages above.'')]"
  using onMinecraftClose_log [of st code] by (simp add: onMinecraftClose_fields)

text \<open>
  C5, as the claim has it, fails: on exit code 0 the entry \<open>Server stopped normally.\<close> is
  classified \<open>success\<close>, and the only entry classified \<open>info\<close> reports the exit code.
\<close>

theorem exit_zero_is_success_counterexample:
  "emitted_since sample_online (onMinecraftClose (Some 0) sample_online) =
     [(Info, stop_button @ '' Minecraft server exited with code 0''),
      (Success, check_mark @ '' Server stopped normally.'')] \<and>
   (Info, check_mark @ '' Server stopped normally.'')
     \<notin> set (emitted_since sample_online (onMinecraftClose (Some 0) sample_online))"
proof -
  have "playitProcess sample_online = None"
    by (simp add: sample_online_def sample_state_def)
  then show ?thesis
    by (simp add: onMinecraftClose_log show_int_0)
qed

text \<open>
  What \<open>POST /start\<close> does while a server process is held: it spawns nothing and leaves the
  process and the state as they are. In the states \<open>Starting\<close> and \<open>Online\<close> it answers that
  the server is already starting or running; in the state \<open>Stopping\<close> it answers that the
  server is starting.
\<close>

lemma start_route_active:
  assumes "minecraftProcess st \<noteq> None"
  shows "spawned (snd (start_route st)) = spawned st \<and>
         minecraftProcess (snd (start_route st)) = minecraftProcess st \<and>
         serverStatus (snd (start_route st)) = serverStatus st \<and>
         (serverStatus st = Starting \<or> serverStatus st = Online \<longrightarrow> start_route st =
            (\<lparr>res_success = False, res_message = ''Server is already starting or running'',
              res_status = None\<rparr>, st)) \<and>
         (serverStatus st = Stopping \<longrightarrow> start_route st =
            (\<lparr>res_success = True, res_message = ''Server is starting...'',
              res_status = Some ''starting''\<rparr>,
             broadcastLog (warning_sign @ '' Server already running'') Warn st))"
  using assms by (auto simp: start_route_def startMinecraftServer_def)

text \<open>
  C4 at the state \<open>Stopping\<close>: the handler spawns nothing and changes neither the process
  nor the state, but it answers \<open>success: true\<close>, \<open>Server is starting...\<close>, status
  \<open>starting\<close>, while the only thing it did was to log \<open>Server already running\<close>.
\<close>

theorem start_while_stopping:
  "fst (start_route sample_stopping) =
     \<lparr>res_success = True, res_message = ''Server is starting...'',
      res_status = Some ''starting''\<rparr> \<and>
   serverStatus (snd (start_route sample_stopping)) = Stopping \<and>
   minecraftProcess (snd (start_route sample_stopping)) = Some 0 \<and>
   spawned (snd (start_route sample_stopping)) = spawned sample_stopping \<and>
   emitted_since sample_stopping (snd (start_route sample_stopping)) =
     [(Warn, warning_sign @ '' Server already running'')]"
  by (simp add: start_route_def startMinecraftServer_def sample_stopping_def sample_online_def
      sample_state_def emitted_since_def)

end
